theory Spec2Isabelle
  imports Main "HOL-Library.Word"
begin

unbundle bit_operations_syntax

section \<open>Python values\<close>

text \<open>
  A Python \<^verbatim>\<open>str\<close> is modelled by the \<^typ>\<open>string\<close> of its UTF-8 bytes: concatenation of
  \<^verbatim>\<open>str\<close> values is concatenation of their encodings, comparison with an ASCII literal is
  equality of the encodings, and \<^verbatim>\<open>s.encode("utf-8")\<close> reads the bytes off. A Python
  \<^verbatim>\<open>bytes\<close> value is the list of its byte values.
\<close>

type_synonym bytes = "nat list"

datatype error =
    TypeError
  | ValueError
  | NotImplementedError
  | URLError
  | OSError
  | HTTPException nat

text \<open>Truthiness of an attribute that is \<^verbatim>\<open>None\<close> or a bool, and of one that is \<^verbatim>\<open>None\<close> or a str.\<close>

definition truthy :: "bool option \<Rightarrow> bool" where
  "truthy b = (case b of None \<Rightarrow> False | Some v \<Rightarrow> v)"

definition truthy_str :: "string option \<Rightarrow> bool" where
  "truthy_str s = (case s of None \<Rightarrow> False | Some v \<Rightarrow> v \<noteq> [])"

section \<open>hashlib.md5 and binascii.hexlify\<close>

text \<open>
  \<^verbatim>\<open>calculate_path\<close> calls \<^verbatim>\<open>md5()\<close>, \<^verbatim>\<open>m.update(bytes)\<close>, \<^verbatim>\<open>m.digest()\<close> and
  \<^verbatim>\<open>hexlify\<close>. MD5 is the algorithm of RFC 1321 on 32-bit words.
\<close>

type_synonym w32 = "32 word"

definition md5_K :: "w32 list" where
  "md5_K = [
    0xd76aa478, 0xe8c7b756, 0x242070db, 0xc1bdceee, 0xf57c0faf, 0x4787c62a, 0xa8304613, 0xfd469501,
    0x698098d8, 0x8b44f7af, 0xffff5bb1, 0x895cd7be, 0x6b901122, 0xfd987193, 0xa679438e, 0x49b40821,
    0xf61e2562, 0xc040b340, 0x265e5a51, 0xe9b6c7aa, 0xd62f105d, 0x02441453, 0xd8a1e681, 0xe7d3fbc8,
    0x21e1cde6, 0xc33707d6, 0xf4d50d87, 0x455a14ed, 0xa9e3e905, 0xfcefa3f8, 0x676f02d9, 0x8d2a4c8a,
    0xfffa3942, 0x8771f681, 0x6d9d6122, 0xfde5380c, 0xa4beea44, 0x4bdecfa9, 0xf6bb4b60, 0xbebfbc70,
    0x289b7ec6, 0xeaa127fa, 0xd4ef3085, 0x04881d05, 0xd9d4d039, 0xe6db99e5, 0x1fa27cf8, 0xc4ac5665,
    0xf4292244, 0x432aff97, 0xab9423a7, 0xfc93a039, 0x655b59c3, 0x8f0ccc92, 0xffeff47d, 0x85845dd1,
    0x6fa87e4f, 0xfe2ce6e0, 0xa3014314, 0x4e0811a1, 0xf7537e82, 0xbd3af235, 0x2ad7d2bb, 0xeb86d391]"

definition md5_S :: "nat list" where
  "md5_S = [7, 12, 17, 22, 7, 12, 17, 22, 7, 12, 17, 22, 7, 12, 17, 22,
            5, 9, 14, 20, 5, 9, 14, 20, 5, 9, 14, 20, 5, 9, 14, 20,
            4, 11, 16, 23, 4, 11, 16, 23, 4, 11, 16, 23, 4, 11, 16, 23,
            6, 10, 15, 21, 6, 10, 15, 21, 6, 10, 15, 21, 6, 10, 15, 21]"

text \<open>Padding: a 1 bit, zeros up to 56 modulo 64 bytes, the bit length in 8 little-endian bytes.\<close>

definition md5_pad :: "bytes \<Rightarrow> bytes" where
  "md5_pad bs =
     (let n = length bs;
          z = (55 + 64 - n mod 64) mod 64;
          bits = 8 * n
      in bs @ [128] @ replicate z 0 @ map (\<lambda>i. (bits div 256 ^ i) mod 256) [0..<8])"

fun le_word :: "bytes \<Rightarrow> w32" where
  "le_word [] = 0"
| "le_word (b # bs) = of_nat b + push_bit 8 (le_word bs)"

fun chunks :: "nat \<Rightarrow> nat \<Rightarrow> 'a list \<Rightarrow> 'a list list" where
  "chunks 0 k xs = []"
| "chunks (Suc n) k xs = take k xs # chunks n k (drop k xs)"

definition rotl32 :: "nat \<Rightarrow> w32 \<Rightarrow> w32" where
  "rotl32 s x = push_bit s x OR drop_bit (32 - s) x"

definition md5_round :: "w32 list \<Rightarrow> w32 \<times> w32 \<times> w32 \<times> w32 \<Rightarrow> nat \<Rightarrow> w32 \<times> w32 \<times> w32 \<times> w32" where
  "md5_round M st i =
     (case st of (A, B, C, D) \<Rightarrow>
        let (F, g) =
          (if i < 16 then ((B AND C) OR (NOT B AND D), i)
           else if i < 32 then ((D AND B) OR (NOT D AND C), (5 * i + 1) mod 16)
           else if i < 48 then (B XOR C XOR D, (3 * i + 5) mod 16)
           else (C XOR (B OR NOT D), (7 * i) mod 16));
          F' = F + A + md5_K ! i + M ! g
        in (D, B + rotl32 (md5_S ! i) F', B, C))"

definition md5_block :: "w32 \<times> w32 \<times> w32 \<times> w32 \<Rightarrow> bytes \<Rightarrow> w32 \<times> w32 \<times> w32 \<times> w32" where
  "md5_block h blk =
     (let M = map le_word (chunks 16 4 blk);
          (A, B, C, D) = foldl (md5_round M) h [0..<64]
      in case h of (a0, b0, c0, d0) \<Rightarrow> (a0 + A, b0 + B, c0 + C, d0 + D))"

definition word_bytes :: "w32 \<Rightarrow> bytes" where
  "word_bytes w = map (\<lambda>i. unat (drop_bit (8 * i) w AND 255)) [0..<4]"

definition md5_digest :: "bytes \<Rightarrow> bytes" where
  "md5_digest bs =
     (let p = md5_pad bs;
          (a, b, c, d) = foldl md5_block (0x67452301, 0xefcdab89, 0x98badcfe, 0x10325476)
                           (chunks (length p div 64) 64 p)
      in word_bytes a @ word_bytes b @ word_bytes c @ word_bytes d)"

definition hex_digit :: "nat \<Rightarrow> char" where
  "hex_digit n = ''0123456789abcdef'' ! (n mod 16)"

definition hexlify :: "bytes \<Rightarrow> string" where
  "hexlify bs = concat (map (\<lambda>b. [hex_digit (b div 16), hex_digit b]) bs)"

definition encode_utf8 :: "string \<Rightarrow> bytes" where
  "encode_utf8 s = map of_char s"

section \<open>Packages and the object store backend\<close>

text \<open>
  The attributes of \<^verbatim>\<open>pypicloud.models.Package\<close> that the storage backend reads:
  \<^verbatim>\<open>name\<close>, \<^verbatim>\<open>filename\<close>, \<^verbatim>\<open>origin\<close> and the metadata dict \<^verbatim>\<open>data\<close>, whose entry
  \<^verbatim>\<open>"path"\<close> holds the storage key once resolved.
\<close>

record package =
  name :: string
  version :: string
  filename :: string
  origin :: string
  data :: "string \<rightharpoonup> string"

text \<open>
  The attributes set by \<^verbatim>\<open>ObjectStoreStorage.__init__\<close>. Every keyword argument defaults to
  \<^verbatim>\<open>None\<close> except \<^verbatim>\<open>public_url\<close>, which defaults to \<^verbatim>\<open>False\<close>.
\<close>

record object_store_storage =
  expire_after :: "int option"
  bucket_prefix :: "string option"
  upload_prefix :: "string option"
  prepend_hash :: "bool option"
  redirect_urls :: "bool option"
  sse :: "string option"
  object_acl :: "string option"
  storage_class :: "string option"
  region_name :: "string option"
  public_url :: bool

text \<open>
  \<^verbatim>\<open>__init__\<close> takes the keyword arguments (here a record of the same shape) and stores
  them; \<^verbatim>\<open>upload_prefix\<close> is stored only when it differs from \<^verbatim>\<open>bucket_prefix\<close>.
\<close>

definition init :: "object_store_storage \<Rightarrow> object_store_storage" where
  "init kwargs =
     kwargs\<lparr>upload_prefix :=
       (if upload_prefix kwargs \<noteq> bucket_prefix kwargs then upload_prefix kwargs else None)\<rparr>"

definition calculate_path :: "object_store_storage \<Rightarrow> package \<Rightarrow> string" where
  "calculate_path self package =
     (let path = name package @ ''/'' @ filename package
      in if truthy (prepend_hash self)
         then (let prefix = take 4 (hexlify (md5_digest (encode_utf8 (filename package))))
               in prefix @ ''/'' @ path)
         else path)"

text \<open>
  \<^verbatim>\<open>get_path\<close> returns the key and the package with its \<^verbatim>\<open>data\<close> dict as the call leaves
  it. Adding \<^verbatim>\<open>None\<close> to a str raises \<^verbatim>\<open>TypeError\<close> before anything is stored.
\<close>

definition area_prefix :: "object_store_storage \<Rightarrow> package \<Rightarrow> string option" where
  "area_prefix self package =
     (if truthy_str (upload_prefix self) \<and> origin package = ''upload''
      then upload_prefix self else bucket_prefix self)"

definition get_path :: "object_store_storage \<Rightarrow> package \<Rightarrow> error + (string \<times> package)" where
  "get_path self package =
     (case data package ''path'' of
        Some p \<Rightarrow> Inr (p, package)
      | None \<Rightarrow>
          (let filename = calculate_path self package
           in case area_prefix self package of
                None \<Rightarrow> Inl TypeError
              | Some a \<Rightarrow>
                  (let p = a @ filename
                   in Inr (p, package\<lparr>data := (data package)(''path'' \<mapsto> p)\<rparr>))))"

text \<open>
  \<^verbatim>\<open>configure\<close> reads the deployment settings (a dict of strings, as parsed from the
  configuration file) into the keyword arguments of \<^verbatim>\<open>__init__\<close>. The conversions
  \<^verbatim>\<open>int\<close> and \<^verbatim>\<open>pyramid.settings.asbool\<close> on a settings string are library code and are
  parameters; \<^verbatim>\<open>int\<close> gives \<^verbatim>\<open>None\<close> where Python raises \<^verbatim>\<open>ValueError\<close>. Defaults are passed
  to them as Python does: \<^verbatim>\<open>int(86400)\<close> is 86400, \<^verbatim>\<open>asbool(True)\<close> is true and
  \<^verbatim>\<open>asbool(None)\<close> is false. The dicts returned by the base class and by
  \<^verbatim>\<open>_subclass_specific_config\<close> (empty in this class) add no key read here, and
  \<^verbatim>\<open>"sse"\<close> is not set, so \<^verbatim>\<open>__init__\<close> sees its default.
\<close>

type_synonym settings = "string \<rightharpoonup> string"

definition settings_get :: "settings \<Rightarrow> string \<Rightarrow> string \<Rightarrow> string" where
  "settings_get settings key dflt = (case settings key of None \<Rightarrow> dflt | Some v \<Rightarrow> v)"

definition configure ::
  "(string \<Rightarrow> int option) \<Rightarrow> (string \<Rightarrow> bool) \<Rightarrow> settings \<Rightarrow> error + object_store_storage" where
  "configure py_int asbool settings =
     (case (case settings ''storage.expire_after'' of
              None \<Rightarrow> Some (60 * 60 * 24)
            | Some v \<Rightarrow> py_int v) of
        None \<Rightarrow> Inl ValueError
      | Some e \<Rightarrow>
          Inr \<lparr>expire_after = Some e,
               bucket_prefix = Some (settings_get settings ''storage.prefix'' []),
               upload_prefix = Some (settings_get settings ''storage.upload_prefix'' []),
               prepend_hash =
                 Some (case settings ''storage.prepend_hash'' of None \<Rightarrow> True | Some v \<Rightarrow> asbool v),
               redirect_urls =
                 Some (case settings ''storage.redirect_urls'' of None \<Rightarrow> True | Some v \<Rightarrow> asbool v),
               sse = None,
               object_acl = settings ''storage.object_acl'',
               storage_class = settings ''storage.storage_class'',
               region_name = settings ''storage.region_name'',
               public_url =
                 (case settings ''storage.public_url'' of None \<Rightarrow> False | Some v \<Rightarrow> asbool v)\<rparr>)"

text \<open>The backend as the application builds it: \<^verbatim>\<open>cls(request, **cls.configure(settings))\<close>.\<close>

definition from_settings ::
  "(string \<Rightarrow> int option) \<Rightarrow> (string \<Rightarrow> bool) \<Rightarrow> settings \<Rightarrow> error + object_store_storage" where
  "from_settings py_int asbool settings =
     (case configure py_int asbool settings of
        Inl e \<Rightarrow> Inl e
      | Inr kwargs \<Rightarrow> Inr (init kwargs))"

text \<open>
  \<^verbatim>\<open>get_url\<close> chooses between the inherited \<^verbatim>\<open>IStorage.get_url\<close> and the backend's
  \<^verbatim>\<open>_generate_url\<close>. The first lives in the base class and the second is implemented by
  the S3 and GCS subclasses; both are parameters.
\<close>

definition get_url ::
  "(package \<Rightarrow> 'r) \<Rightarrow> (object_store_storage \<Rightarrow> package \<Rightarrow> 'r) \<Rightarrow>
   object_store_storage \<Rightarrow> package \<Rightarrow> 'r" where
  "get_url super_get_url generate_url self package =
     (if truthy (redirect_urls self) then super_get_url package
      else generate_url self package)"

datatype http_response =
    HTTPFound string
  | HTTPUnauthorized
  | HTTPForbidden
  | HTTPNotFound

definition download_response ::
  "(object_store_storage \<Rightarrow> package \<Rightarrow> error + string) \<Rightarrow>
   object_store_storage \<Rightarrow> package \<Rightarrow> error + http_response" where
  "download_response generate_url self package =
     (case generate_url self package of
        Inl e \<Rightarrow> Inl e
      | Inr url \<Rightarrow> Inr (HTTPFound url))"

text \<open>
  \<^verbatim>\<open>open\<close> is a context manager. \<^verbatim>\<open>urlopen\<close> gives a handle or raises; the handle's
  \<^verbatim>\<open>read\<close> gives the body or raises. The model runs the whole
  \<^verbatim>\<open>with storage.open(package) as f: consumer(f)\<close> statement and records, in order, what
  happens to the handle. An exception of the consumer re-enters the generator at the
  \<^verbatim>\<open>yield\<close>, inside the \<^verbatim>\<open>try\<close>, so the \<^verbatim>\<open>finally\<close> clause runs before it propagates.
\<close>

record handle =
  hid :: nat
  content :: "error + bytes"

datatype event = Opened nat | ReadFrom nat | Consumed bytes | Closed nat

definition open_package ::
  "(object_store_storage \<Rightarrow> package \<Rightarrow> error + string) \<Rightarrow> (string \<Rightarrow> error + handle) \<Rightarrow>
   object_store_storage \<Rightarrow> package \<Rightarrow> (bytes \<Rightarrow> error + 'a) \<Rightarrow> event list \<Rightarrow>
   (error + 'a) \<times> event list" where
  "open_package generate_url urlopen self package consumer trace =
     (case generate_url self package of
        Inl e \<Rightarrow> (Inl e, trace)
      | Inr url \<Rightarrow>
          (case urlopen url of
             Inl e \<Rightarrow> (Inl e, trace)
           | Inr handle \<Rightarrow>
               (let trace1 = trace @ [Opened (hid handle), ReadFrom (hid handle)];
                    (result, trace2) =
                      (case content handle of
                         Inl e \<Rightarrow> (Inl e, trace1)
                       | Inr body \<Rightarrow> (consumer body, trace1 @ [Consumed body]))
                in (result, trace2 @ [Closed (hid handle)]))))"

text \<open>The key alone, as \<^verbatim>\<open>get_path\<close> returns it to its caller.\<close>

definition key_of :: "error + (string \<times> package) \<Rightarrow> error + string" where
  "key_of r = (case r of Inl e \<Rightarrow> Inl e | Inr (k, package') \<Rightarrow> Inr k)"

abbreviation md5_hex4 :: "string \<Rightarrow> string" where
  "md5_hex4 f \<equiv> take 4 (hexlify (md5_digest (encode_utf8 f)))"

text \<open>
  The key format as the specification words it: each optional part, when present, is
  followed by a separator; the area part is the upload prefix for an uploaded package
  when a distinct upload prefix is configured, and the bucket prefix otherwise.
\<close>

definition spec_area :: "object_store_storage \<Rightarrow> package \<Rightarrow> string" where
  "spec_area self package =
     (let bucket = (case bucket_prefix self of None \<Rightarrow> [] | Some b \<Rightarrow> b);
          upload = (case upload_prefix self of None \<Rightarrow> [] | Some u \<Rightarrow> u)
      in if origin package = ''upload'' \<and> upload \<noteq> [] \<and> upload \<noteq> bucket then upload else bucket)"

definition spec_key :: "object_store_storage \<Rightarrow> package \<Rightarrow> string" where
  "spec_key self package =
     (if spec_area self package = [] then [] else spec_area self package @ ''/'')
     @ (if truthy (prepend_hash self) then md5_hex4 (filename package) @ ''/'' else [])
     @ name package @ ''/'' @ filename package"

section \<open>Example values\<close>

definition foo_upload :: package where
  "foo_upload = \<lparr>name = ''foo'', version = ''1.2'', filename = ''foo-1.2.tar.gz'',
                  origin = ''upload'', data = Map.empty\<rparr>"

definition bar_upload :: package where
  "bar_upload = \<lparr>name = ''bar'', version = ''1.2'', filename = ''foo-1.2.tar.gz'',
                  origin = ''upload'', data = Map.empty\<rparr>"

definition plain_store :: object_store_storage where
  "plain_store = \<lparr>expire_after = Some 86400, bucket_prefix = Some ''pkgs'', upload_prefix = None,
                   prepend_hash = Some False, redirect_urls = Some True, sse = None,
                   object_acl = None, storage_class = None, region_name = None,
                   public_url = False\<rparr>"

definition split_store :: object_store_storage where
  "split_store = \<lparr>expire_after = Some 60, bucket_prefix = Some ''cache/'',
                   upload_prefix = Some ''uploads/'', prepend_hash = Some True,
                   redirect_urls = Some False, sse = None, object_acl = None,
                   storage_class = None, region_name = None, public_url = False\<rparr>"

section \<open>URL producers outside this class\<close>

text \<open>
  Modelled from the spec: \<^verbatim>\<open>IStorage.get_url\<close> (storage/base.py) is not among the sources.
  Section 4.2 calls its result the stable proxy-relative URL and section 4.3 gives the shape
  \<^verbatim>\<open>api/package/{name}/{filename}\<close>, which tests/test_simple.py asks of \<^verbatim>\<open>request.app_url\<close>.
\<close>

definition proxy_url :: "package \<Rightarrow> error + string" where
  "proxy_url package = Inr (''/api/package/'' @ name package @ ''/'' @ filename package)"

text \<open>
  Modelled from the spec: \<^verbatim>\<open>_generate_url\<close> raises \<^verbatim>\<open>NotImplementedError\<close> in this class and
  is implemented by the S3 and GCS subclasses, which are not among the sources. Section 4.2:
  the result of the external signed-URL generator keyed by the storage key, with the
  configured expiry. The generator itself is a parameter.
\<close>

definition signed_url ::
  "(string \<Rightarrow> int option \<Rightarrow> string) \<Rightarrow> object_store_storage \<Rightarrow> package \<Rightarrow> error + string" where
  "signed_url sign self package =
     (case get_path self package of
        Inl e \<Rightarrow> Inl e
      | Inr (key, package') \<Rightarrow> Inr (sign key (expire_after self)))"

definition example_sign :: "string \<Rightarrow> int option \<Rightarrow> string" where
  "example_sign key expiry = ''https://bucket.example/'' @ key @ ''?Signature=s''"

definition hexdigits :: string where
  "hexdigits = ''0123456789abcdef''"

definition example_urlopen :: "string \<Rightarrow> error + handle" where
  "example_urlopen url = Inr \<lparr>hid = 7, content = Inr [80, 75, 3, 4]\<rparr>"

definition failing_consumer :: "bytes \<Rightarrow> error + unit" where
  "failing_consumer body = Inl ValueError"

section \<open>The listing endpoint\<close>

text \<open>
  What a view returns: a payload, an HTTP status response, or an exception that leaves
  the view.
\<close>

datatype 'a view_result = Ok 'a | Http http_response | Raised error

datatype fallback_mode = FallbackNone | FallbackRedirect | FallbackCache

text \<open>
  The parts of a request the views read: the registry settings \<^verbatim>\<open>fallback\<close>,
  \<^verbatim>\<open>always_show_upstream\<close>, \<^verbatim>\<open>fallback_url\<close>, \<^verbatim>\<open>stream_files\<close> and
  \<^verbatim>\<open>package_max_age\<close>; whether the caller is authenticated; the answers of the access
  backend to \<^verbatim>\<open>has_permission(name, "read")\<close> and \<^verbatim>\<open>can_update_cache()\<close>; the packages
  \<^verbatim>\<open>db.all(name)\<close> finds; and the upstream files \<^verbatim>\<open>get_fallback_packages\<close> reports, each
  with its URL.
\<close>

record request =
  fallback :: fallback_mode
  always_show_upstream :: bool
  fallback_url :: string
  stream_files :: bool
  package_max_age :: int
  is_authenticated :: bool
  has_read_permission :: bool
  can_update_cache :: bool
  local_packages :: "package list"
  upstream_packages :: "(string \<times> string) list"

datatype listing_entry = LocalFile package | UpstreamFile string

type_synonym listing = "(string \<times> listing_entry) list"

definition packages_to_dict :: "package list \<Rightarrow> listing" where
  "packages_to_dict pkgs = map (\<lambda>p. (filename p, LocalFile p)) pkgs"

definition fallback_to_dict :: "(string \<times> string) list \<Rightarrow> listing" where
  "fallback_to_dict ups = map (\<lambda>(f, url). (f, UpstreamFile url)) ups"

text \<open>
  The merge rule of section 4.5: every local entry first, then each upstream entry whose
  filename is not already present.
\<close>

definition merge_listing :: "package list \<Rightarrow> (string \<times> string) list \<Rightarrow> listing" where
  "merge_listing pkgs ups =
     packages_to_dict pkgs
     @ fallback_to_dict (filter (\<lambda>(f, url). f \<notin> set (map filename pkgs)) ups)"

definition redirect_upstream :: "request \<Rightarrow> string \<Rightarrow> listing view_result" where
  "redirect_upstream req project = Http (HTTPFound (fallback_url req @ project @ ''/''))"

text \<open>
  Modelled from the spec: \<^verbatim>\<open>package_versions\<close> (pypicloud/views/simple.py) is not among
  the sources. The decision is the state machine of section 4.5, one handler per fallback
  policy, with each combination of local packages, read permission, cache-update
  permission and authentication decided as the test matrix of tests/test_simple.py
  asserts it (\<^verbatim>\<open>TestRedirect\<close>, \<^verbatim>\<open>TestRedirectAlwaysShow\<close>, \<^verbatim>\<open>TestCache\<close>,
  \<^verbatim>\<open>TestCacheAlwaysShow\<close>, \<^verbatim>\<open>TestNoFallback\<close>), which section 8 names as the literal
  matrix. Where a row of the table and an assertion of the tests differ, the assertion is
  followed.
\<close>

definition simple_redirect :: "request \<Rightarrow> string \<Rightarrow> listing view_result" where
  "simple_redirect req project =
     (if local_packages req \<noteq> [] then
        (if \<not> has_read_permission req then
           (if is_authenticated req then redirect_upstream req project
            else Http HTTPUnauthorized)
         else Ok (packages_to_dict (local_packages req)))
      else redirect_upstream req project)"

definition simple_redirect_always_show :: "request \<Rightarrow> string \<Rightarrow> listing view_result" where
  "simple_redirect_always_show req project =
     (if local_packages req \<noteq> [] then
        (if \<not> has_read_permission req then
           (if is_authenticated req then redirect_upstream req project
            else Http HTTPUnauthorized)
         else Ok (merge_listing (local_packages req) (upstream_packages req)))
      else redirect_upstream req project)"

definition simple_cache :: "request \<Rightarrow> string \<Rightarrow> listing view_result" where
  "simple_cache req project =
     (if \<not> has_read_permission req then
        (if is_authenticated req then Http HTTPNotFound else Http HTTPUnauthorized)
      else if local_packages req \<noteq> [] then Ok (packages_to_dict (local_packages req))
      else if \<not> can_update_cache req then
        (if is_authenticated req then Http HTTPNotFound else Http HTTPUnauthorized)
      else Ok (merge_listing [] (upstream_packages req)))"

definition simple_cache_always_show :: "request \<Rightarrow> string \<Rightarrow> listing view_result" where
  "simple_cache_always_show req project =
     (if \<not> has_read_permission req then
        (if is_authenticated req then redirect_upstream req project
         else Http HTTPUnauthorized)
      else if local_packages req \<noteq> [] then
        (if \<not> can_update_cache req \<and> \<not> is_authenticated req then Http HTTPUnauthorized
         else Ok (merge_listing (local_packages req) (upstream_packages req)))
      else if \<not> can_update_cache req then
        (if is_authenticated req then redirect_upstream req project
         else Http HTTPUnauthorized)
      else Ok (merge_listing [] (upstream_packages req)))"

definition simple_serve :: "request \<Rightarrow> string \<Rightarrow> listing view_result" where
  "simple_serve req project =
     (if \<not> has_read_permission req then
        (if is_authenticated req then Http HTTPNotFound else Http HTTPUnauthorized)
      else if local_packages req \<noteq> [] then Ok (packages_to_dict (local_packages req))
      else Http HTTPNotFound)"

definition package_versions :: "request \<Rightarrow> string \<Rightarrow> listing view_result" where
  "package_versions req project =
     (case fallback req of
        FallbackRedirect \<Rightarrow>
          (if always_show_upstream req then simple_redirect_always_show req project
           else simple_redirect req project)
      | FallbackCache \<Rightarrow>
          (if always_show_upstream req then simple_cache_always_show req project
           else simple_cache req project)
      | FallbackNone \<Rightarrow> simple_serve req project)"

subsection \<open>The test matrix of tests/test_simple.py\<close>

text \<open>
  \<^verbatim>\<open>PackageReadTestBase\<close>: the packages of \<^verbatim>\<open>setUpClass\<close>, the patched
  \<^verbatim>\<open>get_fallback_packages\<close> of \<^verbatim>\<open>setUp\<close>, the request built by \<^verbatim>\<open>get_request\<close> and the
  \<^verbatim>\<open>should_...\<close> assertions on the result of \<^verbatim>\<open>package_versions(self.package, request)\<close>.
  \<^verbatim>\<open>make_package\<close> lives in tests/__init__.py, which is not among the sources; the
  names below stand for its defaults.
\<close>

definition test_package :: package where
  "test_package = \<lparr>name = ''mypkg'', version = ''1.1'', filename = ''mypkg-1.1.tar.gz'',
                    origin = ''upload'', data = Map.empty\<rparr>"

definition test_package2 :: package where
  "test_package2 = \<lparr>name = ''mypkg'', version = ''2.1'', filename = ''mypkg-2.1.tar.gz'',
                     origin = ''upload'', data = Map.empty\<rparr>"

definition test_fallback_url :: string where
  "test_fallback_url = ''https://pypi.org/pypi/''"

definition fallback_packages :: "(string \<times> string) list" where
  "fallback_packages = [(filename test_package2, test_fallback_url @ filename test_package2)]"

definition get_request ::
  "fallback_mode \<Rightarrow> bool \<Rightarrow> package option \<Rightarrow> string \<Rightarrow> string option \<Rightarrow> request" where
  "get_request fb asu package perms user =
     \<lparr>fallback = fb, always_show_upstream = asu, fallback_url = test_fallback_url,
      stream_files = False, package_max_age = 0,
      is_authenticated = (user \<noteq> None),
      has_read_permission = (CHR ''r'' \<in> set perms),
      can_update_cache = (CHR ''c'' \<in> set perms),
      local_packages = (case package of None \<Rightarrow> [] | Some p \<Rightarrow> [p]),
      upstream_packages = fallback_packages\<rparr>"

datatype expectation =
    should_ask_auth
  | should_404
  | should_403
  | should_redirect
  | should_serve
  | should_cache
  | should_serve_and_redirect

fun meets :: "listing view_result \<Rightarrow> expectation \<Rightarrow> bool" where
  "meets ret should_ask_auth = (ret = Http HTTPUnauthorized)"
| "meets ret should_404 = (ret = Http HTTPNotFound)"
| "meets ret should_403 = (ret = Http HTTPForbidden)"
| "meets ret should_redirect =
     (ret = Http (HTTPFound (test_fallback_url @ name test_package @ ''/'')))"
| "meets ret should_serve = (ret = Ok [(filename test_package, LocalFile test_package)])"
| "meets ret should_cache = (ret = Ok (fallback_to_dict fallback_packages))"
| "meets ret should_serve_and_redirect =
     (ret = Ok ((filename test_package, LocalFile test_package)
                # fallback_to_dict fallback_packages))"

type_synonym test_case = "package option \<times> string \<times> string option \<times> expectation"

definition run_test :: "fallback_mode \<Rightarrow> bool \<Rightarrow> test_case \<Rightarrow> bool" where
  "run_test fb asu t =
     (case t of (package, perms, user, e) \<Rightarrow>
        meets (package_versions (get_request fb asu package perms user) (name test_package)) e)"

definition TestRedirect :: "test_case list" where
  "TestRedirect =
     [(None, '''', None, should_redirect),
      (None, '''', Some ''foo'', should_redirect),
      (None, ''r'', None, should_redirect),
      (None, ''r'', Some ''foo'', should_redirect),
      (None, ''rc'', None, should_redirect),
      (None, ''rc'', Some ''foo'', should_redirect),
      (Some test_package, '''', None, should_ask_auth),
      (Some test_package, '''', Some ''foo'', should_redirect),
      (Some test_package, ''r'', None, should_serve),
      (Some test_package, ''r'', Some ''foo'', should_serve),
      (Some test_package, ''rc'', None, should_serve),
      (Some test_package, ''rc'', Some ''foo'', should_serve)]"

definition TestRedirectAlwaysShow :: "test_case list" where
  "TestRedirectAlwaysShow =
     [(None, '''', None, should_redirect),
      (None, '''', Some ''foo'', should_redirect),
      (None, ''r'', None, should_redirect),
      (None, ''r'', Some ''foo'', should_redirect),
      (None, ''rc'', None, should_redirect),
      (None, ''rc'', Some ''foo'', should_redirect),
      (Some test_package, '''', None, should_ask_auth),
      (Some test_package, '''', Some ''foo'', should_redirect),
      (Some test_package, ''r'', Some ''foo'', should_serve_and_redirect)]"

definition TestCache :: "test_case list" where
  "TestCache =
     [(None, '''', None, should_ask_auth),
      (None, '''', Some ''foo'', should_404),
      (None, ''r'', None, should_ask_auth),
      (None, ''r'', Some ''foo'', should_404),
      (None, ''rc'', None, should_cache),
      (None, ''rc'', Some ''foo'', should_cache),
      (Some test_package, '''', None, should_ask_auth),
      (Some test_package, '''', Some ''foo'', should_404),
      (Some test_package, ''r'', None, should_serve),
      (Some test_package, ''r'', Some ''foo'', should_serve),
      (Some test_package, ''rc'', None, should_serve),
      (Some test_package, ''rc'', Some ''foo'', should_serve)]"

definition TestCacheAlwaysShow :: "test_case list" where
  "TestCacheAlwaysShow =
     [(None, '''', None, should_ask_auth),
      (None, '''', Some ''foo'', should_redirect),
      (None, ''r'', None, should_ask_auth),
      (None, ''r'', Some ''foo'', should_redirect),
      (None, ''rc'', None, should_cache),
      (None, ''rc'', Some ''foo'', should_cache),
      (Some test_package, '''', None, should_ask_auth),
      (Some test_package, '''', Some ''foo'', should_redirect),
      (Some test_package, ''r'', None, should_ask_auth),
      (Some test_package, ''r'', Some ''foo'', should_serve_and_redirect),
      (Some test_package, ''rc'', None, should_serve_and_redirect),
      (Some test_package, ''rc'', Some ''foo'', should_serve_and_redirect)]"

definition TestNoFallback :: "test_case list" where
  "TestNoFallback =
     [(None, '''', None, should_ask_auth),
      (None, '''', Some ''foo'', should_404),
      (None, ''r'', None, should_404),
      (None, ''r'', Some ''foo'', should_404),
      (None, ''rc'', None, should_404),
      (None, ''rc'', Some ''foo'', should_404),
      (Some test_package, '''', None, should_ask_auth),
      (Some test_package, '''', Some ''foo'', should_404),
      (Some test_package, ''r'', None, should_serve),
      (Some test_package, ''r'', Some ''foo'', should_serve),
      (Some test_package, ''rc'', None, should_serve),
      (Some test_package, ''rc'', Some ''foo'', should_serve)]"

section \<open>The download endpoint\<close>

text \<open>
  An upstream release as \<^verbatim>\<open>locator.get_releases\<close> reports it (the keys the tests read off
  \<^verbatim>\<open>make_dist\<close>), the locator with the network fetch behind it, and the local state a
  download can change: the package records by filename, the objects in the store by key,
  and a count of reads from the store.
\<close>

record dist =
  dist_url :: string
  dist_name :: string
  dist_version :: string
  dist_summary :: "string option"
  dist_requires_python :: "string option"

record locator =
  get_releases :: "string \<Rightarrow> dist list"
  fetch_url :: "string \<Rightarrow> error + bytes"

record server =
  db :: "string \<rightharpoonup> package"
  objects :: "string \<rightharpoonup> bytes"
  storage_reads :: nat

record file_response =
  response_body :: bytes
  response_headers :: "(string \<times> string) list"

fun str_nat :: "nat \<Rightarrow> string" where
  "str_nat n =
     (if n < 10 then [''0123456789'' ! n]
      else str_nat (n div 10) @ [''0123456789'' ! (n mod 10)])"

declare str_nat.simps [simp del]

definition str_int :: "int \<Rightarrow> string" where
  "str_int i = (if i < 0 then ''-'' @ str_nat (nat (- i)) else str_nat (nat i))"

definition cache_control :: "int \<Rightarrow> string \<times> string" where
  "cache_control max_age = (''Cache-Control'', ''public, max-age='' @ str_int max_age)"

definition basename :: "string \<Rightarrow> string" where
  "basename url = rev (takeWhile (\<lambda>c. c \<noteq> CHR ''/'') (rev url))"

definition dist_metadata :: "dist \<Rightarrow> string \<rightharpoonup> string" where
  "dist_metadata d =
     (\<lambda>k. if k = ''summary'' then dist_summary d
          else if k = ''requires_python'' then dist_requires_python d
          else None)"

text \<open>
  Modelled from the spec: \<^verbatim>\<open>fetch_dist\<close> (the cache orchestrator of section 4.6) is not
  among the sources. It retrieves the bytes from the matched upstream URL; a failed fetch
  propagates with nothing written. It then creates a package record with origin
  \<^verbatim>\<open>cache\<close> and the fetched metadata, writes the bytes to the object store under the key
  the storage backend resolves for the record, and returns the record and the bytes.
\<close>

definition fetch_dist ::
  "locator \<Rightarrow> object_store_storage \<Rightarrow> server \<Rightarrow> dist \<Rightarrow> error + ((package \<times> bytes) \<times> server)" where
  "fetch_dist loc storage srv d =
     (case fetch_url loc (dist_url d) of
        Inl e \<Rightarrow> Inl e
      | Inr bs \<Rightarrow>
          (let package = \<lparr>name = dist_name d, version = dist_version d,
                          filename = basename (dist_url d), origin = ''cache'',
                          data = dist_metadata d\<rparr>
           in case get_path storage package of
                Inl e \<Rightarrow> Inl e
              | Inr (key, package') \<Rightarrow>
                  Inr ((package', bs),
                       srv\<lparr>db := (db srv)(filename package' \<mapsto> package'),
                           objects := (objects srv)(key \<mapsto> bs)\<rparr>)))"

text \<open>
  Modelled from the spec: \<^verbatim>\<open>download_package\<close> (pypicloud/views/api.py) is not among the
  sources. Section 6: fetch the local record; if present, return a redirect to the signed
  URL, or the bytes read from the store with a \<^verbatim>\<open>Cache-Control\<close> header when streaming is
  enabled; if absent and the fallback is not \<^verbatim>\<open>cache\<close>, not-found; if absent and the
  caller lacks cache-update permission, forbidden; otherwise look the release up among the
  upstream releases by its filename (the last segment of its URL, as in
  tests/test_api.py), not-found if there is none, else \<^verbatim>\<open>fetch_dist\<close> and return its
  bytes with the same header.
\<close>

definition download_package ::
  "(object_store_storage \<Rightarrow> package \<Rightarrow> error + string) \<Rightarrow> locator \<Rightarrow> object_store_storage \<Rightarrow>
   request \<Rightarrow> server \<Rightarrow> string \<Rightarrow> string \<Rightarrow> file_response view_result \<times> server" where
  "download_package generate_url loc storage req srv project fname =
     (case db srv fname of
        None \<Rightarrow>
          (if fallback req \<noteq> FallbackCache then (Http HTTPNotFound, srv)
           else if \<not> can_update_cache req then (Http HTTPForbidden, srv)
           else (case find (\<lambda>d. basename (dist_url d) = fname) (get_releases loc project) of
                   None \<Rightarrow> (Http HTTPNotFound, srv)
                 | Some d \<Rightarrow>
                     (case fetch_dist loc storage srv d of
                        Inl e \<Rightarrow> (Raised e, srv)
                      | Inr ((package, bs), srv') \<Rightarrow>
                          (Ok \<lparr>response_body = bs,
                               response_headers = [cache_control (package_max_age req)]\<rparr>,
                           srv'))))
      | Some package \<Rightarrow>
          (if stream_files req then
             (case get_path storage package of
                Inl e \<Rightarrow> (Raised e, srv)
              | Inr (key, package') \<Rightarrow>
                  (case objects srv key of
                     None \<Rightarrow> (Raised URLError, srv)
                   | Some bs \<Rightarrow>
                       (Ok \<lparr>response_body = bs,
                               response_headers = [cache_control (package_max_age req)]\<rparr>,
                        srv\<lparr>storage_reads := Suc (storage_reads srv)\<rparr>)))
           else (case download_response generate_url storage package of
                   Inl e \<Rightarrow> (Raised e, srv)
                 | Inr r \<Rightarrow> (Http r, srv))))"

subsection \<open>The scenario of tests/test_api.py\<close>

definition test_dist :: dist where
  "test_dist = \<lparr>dist_url = ''https://pypi.org/simple/package.tar.gz'', dist_name = ''mypkg'',
                 dist_version = ''1.1'', dist_summary = None, dist_requires_python = None\<rparr>"

definition test_locator :: locator where
  "test_locator = \<lparr>get_releases = (\<lambda>project. [test_dist]),
                    fetch_url = (\<lambda>url. Inr [102, 100, 115])\<rparr>"

definition empty_server :: server where
  "empty_server = \<lparr>db = Map.empty, objects = Map.empty, storage_reads = 0\<rparr>"

section \<open>Memoisation of the storage key\<close>

lemma get_path_stored:
  "data package ''path'' = Some p \<Longrightarrow> get_path self package = Inr (p, package)"
  by (simp add: get_path_def)

lemma get_path_stores:
  assumes "get_path self package = Inr (k, package')"
  shows "data package' ''path'' = Some k"
  using assms
  by (auto simp: get_path_def Let_def split: option.splits)

text \<open>
  Claim C10. Once \<^verbatim>\<open>package.data["path"]\<close> is set, \<^verbatim>\<open>get_path\<close> called through any storage
  instance, whatever its prefixes and hashing setting, returns the stored value and leaves
  the package as it is.
\<close>

theorem C10_memoized_path_ignores_configuration:
  "data package ''path'' = Some p \<Longrightarrow> get_path self package = Inr (p, package)"
  by (rule get_path_stored)

theorem C10_memoized_path_ignores_configuration_witness:
  "data \<lparr>name = ''foo'', version = ''1.0'', filename = ''foo-1.0.tar.gz'', origin = ''upload'',
          data = [''path'' \<mapsto> ''old/foo/foo-1.0.tar.gz'']\<rparr> ''path'' = Some ''old/foo/foo-1.0.tar.gz''
   \<and> get_path
        \<lparr>expire_after = Some 60, bucket_prefix = Some ''new/'', upload_prefix = Some ''up/'',
         prepend_hash = Some True, redirect_urls = Some False, sse = None, object_acl = None,
         storage_class = None, region_name = None, public_url = False\<rparr>
        \<lparr>name = ''foo'', version = ''1.0'', filename = ''foo-1.0.tar.gz'', origin = ''upload'',
         data = [''path'' \<mapsto> ''old/foo/foo-1.0.tar.gz'']\<rparr>
     = Inr (''old/foo/foo-1.0.tar.gz'',
        \<lparr>name = ''foo'', version = ''1.0'', filename = ''foo-1.0.tar.gz'', origin = ''upload'',
         data = [''path'' \<mapsto> ''old/foo/foo-1.0.tar.gz'']\<rparr>)"
proof -
  let ?pkg = "\<lparr>name = ''foo'', version = ''1.0'', filename = ''foo-1.0.tar.gz'', origin = ''upload'',
          data = [''path'' \<mapsto> ''old/foo/foo-1.0.tar.gz'']\<rparr>"
  have h: "data ?pkg ''path'' = Some ''old/foo/foo-1.0.tar.gz''" by simp
  show ?thesis
    using h C10_memoized_path_ignores_configuration [OF h] by simp
qed

lemma get_path_fresh:
  assumes "data package ''path'' = None"
  shows "get_path self package =
           (case area_prefix self package of
              None \<Rightarrow> Inl TypeError
            | Some a \<Rightarrow>
                Inr (a @ calculate_path self package,
                     package\<lparr>data := (data package)(''path'' \<mapsto> a @ calculate_path self package)\<rparr>))"
  using assms by (simp add: get_path_def Let_def split: option.splits)

lemma get_path_raises:
  "get_path self package = Inl e \<longleftrightarrow>
     e = TypeError \<and> data package ''path'' = None \<and> area_prefix self package = None"
  by (auto simp: get_path_def Let_def split: option.splits)

lemma get_path_returns:
  "bucket_prefix self = Some b \<Longrightarrow> \<exists>k package'. get_path self package = Inr (k, package')"
  by (auto simp: get_path_def Let_def area_prefix_def truthy_str_def split: option.splits)

text \<open>
  Claim C6. When \<^verbatim>\<open>get_path\<close> returns a key, the key is stored under \<^verbatim>\<open>"path"\<close> in the
  package's metadata, and a second call on that package, through the same or any other
  storage instance, returns the same key and changes nothing; a first call on a package
  without the entry is the one that computes the key.
\<close>

theorem C6_get_path_idempotent:
  assumes "get_path self package = Inr (k, package')"
  shows "data package' ''path'' = Some k
     \<and> get_path self package' = Inr (k, package')
     \<and> get_path self' package' = Inr (k, package')
     \<and> (case data package ''path'' of
          Some p \<Rightarrow> k = p \<and> package' = package
        | None \<Rightarrow> key_of (get_path self package) = Inr k
             \<and> package' = package\<lparr>data := (data package)(''path'' \<mapsto> k)\<rparr>)"
proof -
  have stored: "data package' ''path'' = Some k"
    using assms by (rule get_path_stores)
  have again: "get_path s package' = Inr (k, package')" for s
    using stored by (rule get_path_stored)
  have first: "case data package ''path'' of
          Some p \<Rightarrow> k = p \<and> package' = package
        | None \<Rightarrow> key_of (get_path self package) = Inr k
             \<and> package' = package\<lparr>data := (data package)(''path'' \<mapsto> k)\<rparr>"
    using assms
    by (auto simp: get_path_def Let_def key_of_def split: option.splits)
  from stored again first show ?thesis by simp
qed

theorem C6_get_path_idempotent_witness:
  "get_path plain_store foo_upload
     = Inr (''pkgsfoo/foo-1.2.tar.gz'',
            foo_upload\<lparr>data := [''path'' \<mapsto> ''pkgsfoo/foo-1.2.tar.gz'']\<rparr>)
   \<and> get_path split_store (foo_upload\<lparr>data := [''path'' \<mapsto> ''pkgsfoo/foo-1.2.tar.gz'']\<rparr>)
     = Inr (''pkgsfoo/foo-1.2.tar.gz'',
            foo_upload\<lparr>data := [''path'' \<mapsto> ''pkgsfoo/foo-1.2.tar.gz'']\<rparr>)"
proof -
  have h: "get_path plain_store foo_upload
     = Inr (''pkgsfoo/foo-1.2.tar.gz'',
            foo_upload\<lparr>data := [''path'' \<mapsto> ''pkgsfoo/foo-1.2.tar.gz'']\<rparr>)"
    by (simp add: get_path_def calculate_path_def area_prefix_def truthy_def truthy_str_def
        plain_store_def foo_upload_def Let_def)
  show ?thesis
    using h C6_get_path_idempotent [OF h, of split_store] by simp
qed

section \<open>What the storage key depends on\<close>

lemma key_of_get_path_fresh:
  assumes "data package ''path'' = None"
  shows "key_of (get_path self package) =
           (case area_prefix self package of
              None \<Rightarrow> Inl TypeError
            | Some a \<Rightarrow> Inr (a @ calculate_path self package))"
  using assms by (simp add: get_path_fresh key_of_def split: option.splits)

lemma calculate_path_cong:
  assumes "name p1 = name p2" and "filename p1 = filename p2"
    and "truthy (prepend_hash s1) = truthy (prepend_hash s2)"
  shows "calculate_path s1 p1 = calculate_path s2 p2"
  using assms by (simp add: calculate_path_def Let_def)

lemma area_prefix_cong:
  assumes "origin p1 = origin p2"
    and "bucket_prefix s1 = bucket_prefix s2" and "upload_prefix s1 = upload_prefix s2"
  shows "area_prefix s1 p1 = area_prefix s2 p2"
  using assms by (simp add: area_prefix_def)

text \<open>
  Claim C7, as stated, fails: two packages with the same filename and origin but different
  project names resolve to different keys under one configuration, because
  \<^verbatim>\<open>calculate_path\<close> starts from \<^verbatim>\<open>package.name + "/" + package.filename\<close>.
\<close>

theorem C7_key_depends_on_project_name:
  "filename foo_upload = filename bar_upload
   \<and> origin foo_upload = origin bar_upload
   \<and> data foo_upload ''path'' = None
   \<and> data bar_upload ''path'' = None
   \<and> key_of (get_path plain_store foo_upload) = Inr ''pkgsfoo/foo-1.2.tar.gz''
   \<and> key_of (get_path plain_store bar_upload) = Inr ''pkgsbar/foo-1.2.tar.gz''
   \<and> key_of (get_path plain_store foo_upload) \<noteq> key_of (get_path plain_store bar_upload)"
  by (simp add: key_of_get_path_fresh calculate_path_def area_prefix_def truthy_def
      truthy_str_def plain_store_def foo_upload_def bar_upload_def)

text \<open>
  Claim C7, amended. With no memoised key present, the key is a function of the package's
  project name, filename and origin and of the hashing and prefix settings: two packages
  that agree on name, filename and origin get the same key from any two storage instances
  that agree on \<^verbatim>\<open>prepend_hash\<close>, \<^verbatim>\<open>bucket_prefix\<close> and \<^verbatim>\<open>upload_prefix\<close>, whatever their
  versions, other metadata entries and other settings.
\<close>

theorem C7_key_function_of_name_filename_origin:
  assumes "name p1 = name p2" and "filename p1 = filename p2" and "origin p1 = origin p2"
    and "data p1 ''path'' = None" and "data p2 ''path'' = None"
    and "truthy (prepend_hash s1) = truthy (prepend_hash s2)"
    and "bucket_prefix s1 = bucket_prefix s2" and "upload_prefix s1 = upload_prefix s2"
  shows "key_of (get_path s1 p1) = key_of (get_path s2 p2)"
proof -
  have "calculate_path s1 p1 = calculate_path s2 p2"
    using assms(1,2,6) by (rule calculate_path_cong)
  moreover have "area_prefix s1 p1 = area_prefix s2 p2"
    using assms(3,7,8) by (rule area_prefix_cong)
  ultimately show ?thesis
    using assms(4,5) by (simp add: key_of_get_path_fresh split: option.splits)
qed

theorem C7_key_function_of_name_filename_origin_witness:
  "name foo_upload = name (foo_upload\<lparr>version := ''9.9'', data := [''summary'' \<mapsto> ''text'']\<rparr>)
   \<and> data (foo_upload\<lparr>version := ''9.9'', data := [''summary'' \<mapsto> ''text'']\<rparr>) ''path'' = None
   \<and> key_of (get_path plain_store foo_upload)
     = key_of (get_path (plain_store\<lparr>expire_after := Some 1, redirect_urls := None\<rparr>)
                (foo_upload\<lparr>version := ''9.9'', data := [''summary'' \<mapsto> ''text'']\<rparr>))"
proof -
  let ?p2 = "foo_upload\<lparr>version := ''9.9'', data := [''summary'' \<mapsto> ''text'']\<rparr>"
  let ?s2 = "plain_store\<lparr>expire_after := Some 1, redirect_urls := None\<rparr>"
  have h1: "name foo_upload = name ?p2" by simp
  have h2: "filename foo_upload = filename ?p2" by simp
  have h3: "origin foo_upload = origin ?p2" by simp
  have h4: "data foo_upload ''path'' = None" by (simp add: foo_upload_def)
  have h5: "data ?p2 ''path'' = None" by simp
  have h6: "truthy (prepend_hash plain_store) = truthy (prepend_hash ?s2)" by simp
  have h7: "bucket_prefix plain_store = bucket_prefix ?s2" by simp
  have h8: "upload_prefix plain_store = upload_prefix ?s2" by simp
  show ?thesis
    using h1 h5 C7_key_function_of_name_filename_origin [OF h1 h2 h3 h4 h5 h6 h7 h8] by simp
qed

section \<open>The upload prefix at construction\<close>

lemma init_upload_prefix:
  "upload_prefix (init kwargs) =
     (if upload_prefix kwargs \<noteq> bucket_prefix kwargs then upload_prefix kwargs else None)"
  by (simp add: init_def)

lemma init_other_fields:
  "bucket_prefix (init kwargs) = bucket_prefix kwargs"
  "prepend_hash (init kwargs) = prepend_hash kwargs"
  "redirect_urls (init kwargs) = redirect_urls kwargs"
  "expire_after (init kwargs) = expire_after kwargs"
  by (simp_all add: init_def)

lemma from_settings_default_prefixes:
  assumes "from_settings py_int asbool settings = Inr self"
    and "settings ''storage.prefix'' = None" and "settings ''storage.upload_prefix'' = None"
  shows "bucket_prefix self = Some [] \<and> upload_prefix self = None"
  using assms
  by (auto simp: from_settings_def configure_def init_def settings_get_def
      split: sum.splits option.splits)

text \<open>
  Claim C8. When the upload prefix passed to the constructor equals the bucket prefix, the
  instance holds no upload prefix, and key resolution through it uses the bucket prefix for
  every package: an uploaded package gets the key a package of any other origin gets. No
  method of the class assigns to the instance, so this holds for its whole life.
\<close>

theorem C8_equal_prefixes_unset_upload_prefix:
  assumes "upload_prefix kwargs = bucket_prefix kwargs"
  shows "upload_prefix (init kwargs) = None
     \<and> area_prefix (init kwargs) package = bucket_prefix kwargs
     \<and> key_of (get_path (init kwargs) (package\<lparr>origin := ''upload''\<rparr>))
       = key_of (get_path (init kwargs) (package\<lparr>origin := og\<rparr>))"
proof -
  have none: "upload_prefix (init kwargs) = None"
    using assms by (simp add: init_upload_prefix)
  have area: "area_prefix (init kwargs) p = bucket_prefix kwargs" for p
    using none by (simp add: area_prefix_def truthy_str_def init_other_fields)
  have "key_of (get_path (init kwargs) (package\<lparr>origin := ''upload''\<rparr>))
       = key_of (get_path (init kwargs) (package\<lparr>origin := og\<rparr>))"
    by (simp add: get_path_def key_of_def area calculate_path_def Let_def split: option.splits)
  with none area show ?thesis by simp
qed

theorem C8_equal_prefixes_unset_upload_prefix_witness:
  "upload_prefix (split_store\<lparr>upload_prefix := Some ''cache/''\<rparr>)
     = bucket_prefix (split_store\<lparr>upload_prefix := Some ''cache/''\<rparr>)
   \<and> upload_prefix (init (split_store\<lparr>upload_prefix := Some ''cache/''\<rparr>)) = None
   \<and> area_prefix (init (split_store\<lparr>upload_prefix := Some ''cache/''\<rparr>)) foo_upload
     = Some ''cache/''"
proof -
  have h: "upload_prefix (split_store\<lparr>upload_prefix := Some ''cache/''\<rparr>)
     = bucket_prefix (split_store\<lparr>upload_prefix := Some ''cache/''\<rparr>)"
    by (simp add: split_store_def)
  show ?thesis
    using h C8_equal_prefixes_unset_upload_prefix [OF h, of foo_upload]
    by (simp add: split_store_def)
qed

section \<open>The shape of a computed key\<close>

lemma length_word_bytes: "length (word_bytes w) = 4"
  by (simp add: word_bytes_def)

lemma length_md5_digest: "length (md5_digest bs) = 16"
  by (simp add: md5_digest_def Let_def length_word_bytes split: prod.splits)

lemma length_hexlify: "length (hexlify bs) = 2 * length bs"
  by (induction bs) (simp_all add: hexlify_def)

lemma hex_digit_hexdigits: "hex_digit n \<in> set hexdigits"
proof -
  have "n mod 16 < length hexdigits" by (simp add: hexdigits_def)
  then have "hexdigits ! (n mod 16) \<in> set hexdigits" by (rule nth_mem)
  then show ?thesis by (simp add: hex_digit_def hexdigits_def)
qed

lemma hexlify_hexdigits: "set (hexlify bs) \<subseteq> set hexdigits"
  by (induction bs) (simp_all add: hexlify_def hex_digit_hexdigits)

lemma md5_hex4_shape:
  "length (md5_hex4 f) = 4 \<and> list_all (\<lambda>c. c \<in> set hexdigits) (md5_hex4 f)"
proof -
  have "length (md5_hex4 f) = 4"
    by (simp add: length_hexlify length_md5_digest)
  moreover have "set (md5_hex4 f) \<subseteq> set hexdigits"
    using set_take_subset hexlify_hexdigits by (rule subset_trans)
  ultimately show ?thesis
    by (auto simp: list_all_iff)
qed

lemma area_prefix_init:
  "area_prefix (init kwargs) package =
     (if origin package = ''upload'' \<and> truthy_str (upload_prefix kwargs)
         \<and> upload_prefix kwargs \<noteq> bucket_prefix kwargs
      then upload_prefix kwargs else bucket_prefix kwargs)"
  by (auto simp: area_prefix_def init_def truthy_str_def)

text \<open>
  Claim C2, as stated, fails: the backend puts no separator after the area prefix. With
  bucket prefix \<^verbatim>\<open>pkgs\<close> and hashing off, package \<^verbatim>\<open>foo\<close> with file \<^verbatim>\<open>foo-1.2.tar.gz\<close>
  resolves to \<^verbatim>\<open>pkgsfoo/foo-1.2.tar.gz\<close>, where the stated format gives
  \<^verbatim>\<open>pkgs/foo/foo-1.2.tar.gz\<close>.
\<close>

theorem C2_area_prefix_gets_no_separator:
  "init plain_store = plain_store
   \<and> data foo_upload ''path'' = None
   \<and> key_of (get_path plain_store foo_upload) = Inr ''pkgsfoo/foo-1.2.tar.gz''
   \<and> spec_key plain_store foo_upload = ''pkgs/foo/foo-1.2.tar.gz''"
  by (simp add: key_of_get_path_fresh calculate_path_def area_prefix_def truthy_def
      truthy_str_def plain_store_def foo_upload_def init_def spec_key_def spec_area_def)

text \<open>
  Claim C2, amended. For a package that carries no memoised key, a backend built by
  \<^verbatim>\<open>__init__\<close> resolves the key \<^verbatim>\<open><area><hex4/><project>/<filename>\<close>: the area prefix is
  prepended exactly as configured, with no separator added; it is the upload prefix when
  the package's origin is \<^verbatim>\<open>upload\<close> and a non-empty upload prefix different from the
  bucket prefix was configured, and the bucket prefix otherwise (a bucket prefix of
  \<^verbatim>\<open>None\<close> raises \<^verbatim>\<open>TypeError\<close>); the hash part is present exactly when \<^verbatim>\<open>prepend_hash\<close>
  is set, and is the first four hexadecimal digits of the MD5 digest of the filename
  followed by \<^verbatim>\<open>/\<close>.
\<close>

theorem C2_storage_key_format:
  assumes "data package ''path'' = None"
  shows "key_of (get_path (init kwargs) package) =
     (case (if origin package = ''upload'' \<and> truthy_str (upload_prefix kwargs)
               \<and> upload_prefix kwargs \<noteq> bucket_prefix kwargs
            then upload_prefix kwargs else bucket_prefix kwargs) of
        None \<Rightarrow> Inl TypeError
      | Some area \<Rightarrow>
          Inr (area
               @ (if truthy (prepend_hash kwargs) then md5_hex4 (filename package) @ ''/'' else [])
               @ name package @ ''/'' @ filename package))
     \<and> length (md5_hex4 (filename package)) = 4
     \<and> list_all (\<lambda>c. c \<in> set hexdigits) (md5_hex4 (filename package))"
proof -
  have "calculate_path (init kwargs) package =
          (if truthy (prepend_hash kwargs) then md5_hex4 (filename package) @ ''/'' else [])
          @ name package @ ''/'' @ filename package"
    by (simp add: calculate_path_def Let_def init_other_fields)
  then have "key_of (get_path (init kwargs) package) =
     (case (if origin package = ''upload'' \<and> truthy_str (upload_prefix kwargs)
               \<and> upload_prefix kwargs \<noteq> bucket_prefix kwargs
            then upload_prefix kwargs else bucket_prefix kwargs) of
        None \<Rightarrow> Inl TypeError
      | Some area \<Rightarrow>
          Inr (area
               @ (if truthy (prepend_hash kwargs) then md5_hex4 (filename package) @ ''/'' else [])
               @ name package @ ''/'' @ filename package))"
    using assms
    by (simp only: key_of_get_path_fresh area_prefix_init)
  with md5_hex4_shape [of "filename package"] show ?thesis by simp
qed

theorem C2_storage_key_format_witness:
  "data foo_upload ''path'' = None
   \<and> key_of (get_path (init split_store) foo_upload)
     = Inr (''uploads/'' @ md5_hex4 ''foo-1.2.tar.gz'' @ ''/foo/foo-1.2.tar.gz'')
   \<and> key_of (get_path (init split_store) (foo_upload\<lparr>origin := ''cache''\<rparr>))
     = Inr (''cache/'' @ md5_hex4 ''foo-1.2.tar.gz'' @ ''/foo/foo-1.2.tar.gz'')
   \<and> length (md5_hex4 ''foo-1.2.tar.gz'') = 4"
proof -
  have h: "data foo_upload ''path'' = None" by (simp add: foo_upload_def)
  have h': "data (foo_upload\<lparr>origin := ''cache''\<rparr>) ''path'' = None" by (simp add: foo_upload_def)
  show ?thesis
    using h C2_storage_key_format [OF h, of split_store]
      C2_storage_key_format [OF h', of split_store]
    by (simp add: split_store_def foo_upload_def truthy_def truthy_str_def)
qed

section \<open>URL resolution\<close>

lemma from_settings_fields:
  assumes "from_settings py_int asbool settings = Inr self"
  shows "redirect_urls self =
           Some (case settings ''storage.redirect_urls'' of None \<Rightarrow> True | Some v \<Rightarrow> asbool v)"
    and "expire_after self =
           (case settings ''storage.expire_after'' of None \<Rightarrow> Some 86400 | Some v \<Rightarrow> py_int v)"
  using assms
  by (auto simp: from_settings_def configure_def init_def split: sum.splits option.splits)

text \<open>
  Claim C5, as stated, fails: the two branches are the other way round. With
  \<^verbatim>\<open>redirect_urls\<close> set, \<^verbatim>\<open>get_url\<close> returns the inherited proxy-relative URL and not the
  signed URL; with \<^verbatim>\<open>redirect_urls\<close> unset it returns the signed URL.
\<close>

theorem C5_redirect_mode_returns_proxy_url:
  "redirect_urls plain_store = Some True
   \<and> get_url proxy_url (signed_url example_sign) plain_store foo_upload
     = Inr ''/api/package/foo/foo-1.2.tar.gz''
   \<and> signed_url example_sign plain_store foo_upload
     = Inr ''https://bucket.example/pkgsfoo/foo-1.2.tar.gz?Signature=s''
   \<and> redirect_urls (plain_store\<lparr>redirect_urls := Some False\<rparr>) = Some False
   \<and> get_url proxy_url (signed_url example_sign) (plain_store\<lparr>redirect_urls := Some False\<rparr>)
       foo_upload
     = Inr ''https://bucket.example/pkgsfoo/foo-1.2.tar.gz?Signature=s''"
  by (simp add: get_url_def proxy_url_def signed_url_def example_sign_def get_path_def
      calculate_path_def area_prefix_def truthy_def truthy_str_def plain_store_def
      foo_upload_def Let_def)

text \<open>
  Claim C5, amended. For a backend built from the settings, \<^verbatim>\<open>get_url\<close> returns the
  inherited \<^verbatim>\<open>IStorage.get_url\<close> result (the stable proxy-relative URL) when
  \<^verbatim>\<open>storage.redirect_urls\<close> is enabled, which is the default, and the result of the
  backend's signed-URL generator \<^verbatim>\<open>_generate_url\<close> when it is disabled; the expiry the
  backend holds is the configured \<^verbatim>\<open>storage.expire_after\<close> and 86400 seconds by default.
\<close>

theorem C5_get_url_by_redirect_mode:
  assumes "from_settings py_int asbool settings = Inr self"
  shows "get_url super_get_url generate_url self package =
           (if (case settings ''storage.redirect_urls'' of None \<Rightarrow> True | Some v \<Rightarrow> asbool v)
            then super_get_url package else generate_url self package)
     \<and> expire_after self =
           (case settings ''storage.expire_after'' of None \<Rightarrow> Some 86400 | Some v \<Rightarrow> py_int v)"
  using from_settings_fields [OF assms]
  by (simp add: get_url_def truthy_def)

theorem C5_get_url_by_redirect_mode_witness:
  "from_settings (\<lambda>v. None) (\<lambda>v. False) Map.empty
     = Inr \<lparr>expire_after = Some 86400, bucket_prefix = Some [], upload_prefix = None,
            prepend_hash = Some True, redirect_urls = Some True, sse = None, object_acl = None,
            storage_class = None, region_name = None, public_url = False\<rparr>
   \<and> get_url proxy_url (signed_url example_sign)
        \<lparr>expire_after = Some 86400, bucket_prefix = Some [], upload_prefix = None,
         prepend_hash = Some True, redirect_urls = Some True, sse = None, object_acl = None,
         storage_class = None, region_name = None, public_url = False\<rparr> foo_upload
     = Inr ''/api/package/foo/foo-1.2.tar.gz''"
proof -
  have h: "from_settings (\<lambda>v. None) (\<lambda>v. False) Map.empty
     = Inr \<lparr>expire_after = Some 86400, bucket_prefix = Some [], upload_prefix = None,
            prepend_hash = Some True, redirect_urls = Some True, sse = None, object_acl = None,
            storage_class = None, region_name = None, public_url = False\<rparr>"
    by (simp add: from_settings_def configure_def init_def settings_get_def)
  show ?thesis
    using h C5_get_url_by_redirect_mode [OF h, of proxy_url "signed_url example_sign" foo_upload]
    by (simp add: proxy_url_def foo_upload_def)
qed

section \<open>Streaming through the service\<close>

lemma open_package_no_handle:
  assumes "generate_url self package = Inl e
           \<or> (\<exists>url. generate_url self package = Inr url \<and> urlopen url = Inl e)"
  shows "open_package generate_url urlopen self package consumer trace = (Inl e, trace)"
  using assms by (auto simp: open_package_def)

text \<open>
  Claim C9. When \<^verbatim>\<open>_generate_url\<close> gives a URL and \<^verbatim>\<open>urlopen\<close> gives a handle for it,
  \<^verbatim>\<open>open\<close> reads the handle, hands the bytes read to the consumer, and closes the handle
  as its last action on each exit path: when the read raises (the consumer is not run and
  the error propagates), and when the consumer returns or raises (its result, value or
  error, is the result of the statement).
\<close>

theorem C9_open_closes_handle:
  assumes "generate_url self package = Inr url" and "urlopen url = Inr h"
  shows "open_package generate_url urlopen self package consumer trace =
           (case content h of
              Inl e \<Rightarrow> (Inl e, trace @ [Opened (hid h), ReadFrom (hid h), Closed (hid h)])
            | Inr body \<Rightarrow>
                (consumer body,
                 trace @ [Opened (hid h), ReadFrom (hid h), Consumed body, Closed (hid h)]))
     \<and> last (snd (open_package generate_url urlopen self package consumer trace))
       = Closed (hid h)"
  using assms
  by (simp add: open_package_def Let_def split: sum.splits)

theorem C9_open_closes_handle_witness:
  "signed_url example_sign plain_store foo_upload
     = Inr ''https://bucket.example/pkgsfoo/foo-1.2.tar.gz?Signature=s''
   \<and> open_package (signed_url example_sign) example_urlopen plain_store foo_upload
        failing_consumer []
     = (Inl ValueError, [Opened 7, ReadFrom 7, Consumed [80, 75, 3, 4], Closed 7])"
proof -
  have g: "signed_url example_sign plain_store foo_upload
     = Inr ''https://bucket.example/pkgsfoo/foo-1.2.tar.gz?Signature=s''"
    by (simp add: signed_url_def example_sign_def get_path_def calculate_path_def
        area_prefix_def truthy_def truthy_str_def plain_store_def foo_upload_def Let_def)
  have u: "example_urlopen ''https://bucket.example/pkgsfoo/foo-1.2.tar.gz?Signature=s''
           = Inr \<lparr>hid = 7, content = Inr [80, 75, 3, 4]\<rparr>"
    by (simp add: example_urlopen_def)
  show ?thesis
    using g C9_open_closes_handle [where generate_url = "signed_url example_sign"
        and urlopen = example_urlopen and consumer = failing_consumer and trace = "[]", OF g u]
    by (simp add: failing_consumer_def)
qed

section \<open>The listing endpoint against its test matrix\<close>

lemmas listing_defs =
  package_versions_def simple_redirect_def simple_redirect_always_show_def simple_cache_def
  simple_cache_always_show_def simple_serve_def redirect_upstream_def merge_listing_def
  packages_to_dict_def fallback_to_dict_def

lemmas test_defs =
  run_test_def get_request_def test_package_def test_package2_def fallback_packages_def
  test_fallback_url_def

lemma TestRedirect_passes: "list_all (run_test FallbackRedirect False) TestRedirect"
  by (simp add: TestRedirect_def test_defs listing_defs)

lemma TestRedirectAlwaysShow_passes:
  "list_all (run_test FallbackRedirect True) TestRedirectAlwaysShow"
  by (simp add: TestRedirectAlwaysShow_def test_defs listing_defs)

lemma TestCache_passes: "list_all (run_test FallbackCache False) TestCache"
  by (simp add: TestCache_def test_defs listing_defs)

lemma TestCacheAlwaysShow_passes:
  "list_all (run_test FallbackCache True) TestCacheAlwaysShow"
  by (simp add: TestCacheAlwaysShow_def test_defs listing_defs)

lemma TestNoFallback_passes: "list_all (run_test FallbackNone False) TestNoFallback"
  by (simp add: TestNoFallback_def test_defs listing_defs)

text \<open>
  Claim C1, as stated, fails when \<^verbatim>\<open>always_show_upstream\<close> is on: the request of
  \<^verbatim>\<open>TestCacheAlwaysShow.test_no_package_no_read_user\<close> (fallback \<^verbatim>\<open>cache\<close>, no local
  package, user \<^verbatim>\<open>foo\<close> without cache-update permission) is answered with a redirect to
  the upstream project page, as that test asserts with \<^verbatim>\<open>should_redirect\<close>.
\<close>

theorem C1_always_show_redirects_without_cache_permission:
  "fallback (get_request FallbackCache True None '''' (Some ''foo'')) = FallbackCache
   \<and> local_packages (get_request FallbackCache True None '''' (Some ''foo'')) = []
   \<and> is_authenticated (get_request FallbackCache True None '''' (Some ''foo''))
   \<and> \<not> can_update_cache (get_request FallbackCache True None '''' (Some ''foo''))
   \<and> package_versions (get_request FallbackCache True None '''' (Some ''foo'')) ''mypkg''
     = Http (HTTPFound ''https://pypi.org/pypi/mypkg/'')
   \<and> package_versions (get_request FallbackCache True None '''' (Some ''foo'')) ''mypkg''
     \<noteq> Http HTTPNotFound"
  by (simp add: test_defs listing_defs)

text \<open>
  Claim C1, amended. For a listing request with fallback mode \<^verbatim>\<open>cache\<close> and no locally
  stored package of the project, an authenticated caller without cache-update permission
  receives not-found when \<^verbatim>\<open>always_show_upstream\<close> is off and a redirect to the upstream
  project page when it is on, in both cases whether or not the caller holds read
  permission.
\<close>

theorem C1_cache_miss_without_cache_permission:
  assumes "fallback req = FallbackCache" and "local_packages req = []"
    and "is_authenticated req" and "\<not> can_update_cache req"
  shows "package_versions req project =
           (if always_show_upstream req
            then Http (HTTPFound (fallback_url req @ project @ ''/''))
            else Http HTTPNotFound)"
  using assms
  by (simp add: package_versions_def simple_cache_def simple_cache_always_show_def
      redirect_upstream_def)

theorem C1_cache_miss_without_cache_permission_witness:
  "fallback (get_request FallbackCache False None ''r'' (Some ''foo'')) = FallbackCache
   \<and> local_packages (get_request FallbackCache False None ''r'' (Some ''foo'')) = []
   \<and> is_authenticated (get_request FallbackCache False None ''r'' (Some ''foo''))
   \<and> \<not> can_update_cache (get_request FallbackCache False None ''r'' (Some ''foo''))
   \<and> package_versions (get_request FallbackCache False None ''r'' (Some ''foo'')) ''mypkg''
     = Http HTTPNotFound"
proof -
  let ?req = "get_request FallbackCache False None ''r'' (Some ''foo'')"
  have h1: "fallback ?req = FallbackCache" by (simp add: get_request_def)
  have h2: "local_packages ?req = []" by (simp add: get_request_def)
  have h3: "is_authenticated ?req" by (simp add: get_request_def)
  have h4: "\<not> can_update_cache ?req" by (simp add: get_request_def)
  have h5: "\<not> always_show_upstream ?req" by (simp add: get_request_def)
  show ?thesis
    using h1 h2 h3 h4 h5 C1_cache_miss_without_cache_permission [OF h1 h2 h3 h4, of "''mypkg''"]
    by simp
qed

section \<open>Downloading a file that is not stored locally\<close>

lemma dist_metadata_no_path: "dist_metadata d ''path'' = None"
  by (simp add: dist_metadata_def)

lemma find_basename:
  assumes "find (\<lambda>d. basename (dist_url d) = fname) ds = Some d"
  shows "basename (dist_url d) = fname"
  using assms by (auto simp: find_Some_iff)

lemma fetch_dist_ok:
  assumes "fetch_url loc (dist_url d) = Inr bs" and "bucket_prefix storage = Some b"
  shows "\<exists>package key.
           fetch_dist loc storage srv d
             = Inr ((package, bs),
                    srv\<lparr>db := (db srv)(basename (dist_url d) \<mapsto> package),
                        objects := (objects srv)(key \<mapsto> bs)\<rparr>)
           \<and> origin package = ''cache'' \<and> filename package = basename (dist_url d)
           \<and> name package = dist_name d \<and> version package = dist_version d
           \<and> data package ''path'' = Some key"
  using assms
  by (simp add: fetch_dist_def get_path_def area_prefix_def truthy_str_def
      dist_metadata_no_path Let_def)

text \<open>
  Claim C3. A download of a filename with no local record, under fallback mode \<^verbatim>\<open>cache\<close>,
  by a caller with cache-update permission, where upstream reports a release whose file is
  the requested one and the fetch of its URL succeeds (through a backend with a bucket
  prefix, as every backend built from the settings has): the response body is the fetched
  bytes, its header is \<^verbatim>\<open>Cache-Control: public, max-age=<package_max_age>\<close>, the store is
  written once and not read, and the local records are the old ones plus one record for
  the requested filename, with origin \<^verbatim>\<open>cache\<close>.
\<close>

theorem C3_cache_miss_download_returns_upstream_bytes:
  assumes "db srv fname = None"
    and "fallback req = FallbackCache" and "can_update_cache req"
    and "find (\<lambda>d. basename (dist_url d) = fname) (get_releases loc project) = Some d"
    and "fetch_url loc (dist_url d) = Inr bs"
    and "bucket_prefix storage = Some b"
  shows "\<exists>package key.
           download_package generate_url loc storage req srv project fname
             = (Ok \<lparr>response_body = bs,
                    response_headers =
                      [(''Cache-Control'', ''public, max-age='' @ str_int (package_max_age req))]\<rparr>,
                srv\<lparr>db := (db srv)(fname \<mapsto> package),
                    objects := (objects srv)(key \<mapsto> bs)\<rparr>)
           \<and> origin package = ''cache'' \<and> filename package = fname
           \<and> storage_reads
                (snd (download_package generate_url loc storage req srv project fname))
              = storage_reads srv"
proof -
  have fname: "basename (dist_url d) = fname"
    using assms(4) by (rule find_basename)
  obtain package key where
    fd: "fetch_dist loc storage srv d
           = Inr ((package, bs),
                  srv\<lparr>db := (db srv)(fname \<mapsto> package), objects := (objects srv)(key \<mapsto> bs)\<rparr>)"
    and pk: "origin package = ''cache''" "filename package = fname"
    using fetch_dist_ok [OF assms(5,6), of srv] fname by auto
  have "download_package generate_url loc storage req srv project fname
          = (Ok \<lparr>response_body = bs,
                 response_headers =
                   [(''Cache-Control'', ''public, max-age='' @ str_int (package_max_age req))]\<rparr>,
             srv\<lparr>db := (db srv)(fname \<mapsto> package), objects := (objects srv)(key \<mapsto> bs)\<rparr>)"
    using assms(1-4) fd by (simp add: download_package_def cache_control_def)
  with pk show ?thesis by auto
qed

theorem C3_cache_miss_download_returns_upstream_bytes_witness:
  "db empty_server ''package.tar.gz'' = None
   \<and> can_update_cache (get_request FallbackCache False None ''rc'' (Some ''foo''))
   \<and> find (\<lambda>d. basename (dist_url d) = ''package.tar.gz'') (get_releases test_locator ''mypkg'')
     = Some test_dist
   \<and> download_package (signed_url example_sign) test_locator plain_store
        (get_request FallbackCache False None ''rc'' (Some ''foo'')) empty_server
        ''mypkg'' ''package.tar.gz''
     = (Ok \<lparr>response_body = [102, 100, 115],
            response_headers = [(''Cache-Control'', ''public, max-age=0'')]\<rparr>,
        \<lparr>db = [''package.tar.gz'' \<mapsto>
                 \<lparr>name = ''mypkg'', version = ''1.1'', filename = ''package.tar.gz'',
                  origin = ''cache'',
                  data = (dist_metadata test_dist)(''path'' \<mapsto> ''pkgsmypkg/package.tar.gz'')\<rparr>],
         objects = [''pkgsmypkg/package.tar.gz'' \<mapsto> [102, 100, 115]],
         storage_reads = 0\<rparr>)"
proof -
  let ?req = "get_request FallbackCache False None ''rc'' (Some ''foo'')"
  have h1: "db empty_server ''package.tar.gz'' = None" by (simp add: empty_server_def)
  have h2: "fallback ?req = FallbackCache" by (simp add: get_request_def)
  have h3: "can_update_cache ?req" by (simp add: get_request_def)
  have h4: "find (\<lambda>d. basename (dist_url d) = ''package.tar.gz'')
              (get_releases test_locator ''mypkg'') = Some test_dist"
    by (simp add: test_locator_def test_dist_def basename_def)
  have h5: "fetch_url test_locator (dist_url test_dist) = Inr [102, 100, 115]"
    by (simp add: test_locator_def)
  have h6: "bucket_prefix plain_store = Some ''pkgs''" by (simp add: plain_store_def)
  have run: "fetch_dist test_locator plain_store empty_server test_dist
     = Inr ((\<lparr>name = ''mypkg'', version = ''1.1'', filename = ''package.tar.gz'',
              origin = ''cache'',
              data = (dist_metadata test_dist)(''path'' \<mapsto> ''pkgsmypkg/package.tar.gz'')\<rparr>,
             [102, 100, 115]),
            \<lparr>db = [''package.tar.gz'' \<mapsto>
                 \<lparr>name = ''mypkg'', version = ''1.1'', filename = ''package.tar.gz'',
                  origin = ''cache'',
                  data = (dist_metadata test_dist)(''path'' \<mapsto> ''pkgsmypkg/package.tar.gz'')\<rparr>],
             objects = [''pkgsmypkg/package.tar.gz'' \<mapsto> [102, 100, 115]],
             storage_reads = 0\<rparr>)"
    by (simp add: fetch_dist_def get_path_def calculate_path_def area_prefix_def truthy_def
        truthy_str_def dist_metadata_no_path plain_store_def empty_server_def test_locator_def
        test_dist_def basename_def Let_def)
  have zero: "str_int (package_max_age ?req) = ''0''"
    by (simp add: get_request_def str_int_def str_nat.simps)
  from C3_cache_miss_download_returns_upstream_bytes [OF h1 h2 h3 h4 h5 h6,
      of "signed_url example_sign"]
  obtain package key where
    "download_package (signed_url example_sign) test_locator plain_store ?req empty_server
       ''mypkg'' ''package.tar.gz''
     = (Ok \<lparr>response_body = [102, 100, 115],
            response_headers =
              [(''Cache-Control'', ''public, max-age='' @ str_int (package_max_age ?req))]\<rparr>,
        empty_server\<lparr>db := (db empty_server)(''package.tar.gz'' \<mapsto> package),
                     objects := (objects empty_server)(key \<mapsto> [102, 100, 115])\<rparr>)"
    by blast
  moreover have "download_package (signed_url example_sign) test_locator plain_store ?req
       empty_server ''mypkg'' ''package.tar.gz''
     = (Ok \<lparr>response_body = [102, 100, 115],
            response_headers = [cache_control (package_max_age ?req)]\<rparr>,
        \<lparr>db = [''package.tar.gz'' \<mapsto>
                 \<lparr>name = ''mypkg'', version = ''1.1'', filename = ''package.tar.gz'',
                  origin = ''cache'',
                  data = (dist_metadata test_dist)(''path'' \<mapsto> ''pkgsmypkg/package.tar.gz'')\<rparr>],
         objects = [''pkgsmypkg/package.tar.gz'' \<mapsto> [102, 100, 115]],
         storage_reads = 0\<rparr>)"
    using h1 h2 h3 h4 run by (simp add: download_package_def)
  ultimately show ?thesis
    using h1 h3 h4 zero by (simp add: cache_control_def)
qed

text \<open>
  Claim C4. A download of a filename with no local record, under fallback mode \<^verbatim>\<open>cache\<close>,
  by a caller without cache-update permission, is answered with forbidden, and the local
  state (records, stored objects, read count) is what it was.
\<close>

theorem C4_cache_miss_download_forbidden:
  assumes "db srv fname = None"
    and "fallback req = FallbackCache" and "\<not> can_update_cache req"
  shows "download_package generate_url loc storage req srv project fname
           = (Http HTTPForbidden, srv)"
  using assms by (simp add: download_package_def)

theorem C4_cache_miss_download_forbidden_witness:
  "db empty_server ''package.tar.gz'' = None
   \<and> fallback (get_request FallbackCache False None ''r'' (Some ''foo'')) = FallbackCache
   \<and> \<not> can_update_cache (get_request FallbackCache False None ''r'' (Some ''foo''))
   \<and> download_package (signed_url example_sign) test_locator plain_store
        (get_request FallbackCache False None ''r'' (Some ''foo'')) empty_server
        ''mypkg'' ''package.tar.gz''
     = (Http HTTPForbidden, empty_server)"
proof -
  let ?req = "get_request FallbackCache False None ''r'' (Some ''foo'')"
  have h1: "db empty_server ''package.tar.gz'' = None" by (simp add: empty_server_def)
  have h2: "fallback ?req = FallbackCache" by (simp add: get_request_def)
  have h3: "\<not> can_update_cache ?req" by (simp add: get_request_def)
  show ?thesis
    using h1 h2 h3
      C4_cache_miss_download_forbidden [OF h1 h2 h3, of "signed_url example_sign" test_locator
        plain_store "''mypkg''"]
    by simp
qed

end
